theory Spec2Isabelle
  imports Complex_Main
begin

section \<open>Ward notification pipeline of \<open>notifications.py\<close>\<close>

text \<open>
  The class \<open>WardNotificationSystem\<close> resolves the ward of an issue by a point-in-polygon
  test over the ward documents of a Firestore collection, writes the assignment to the issue
  document and sends one e-mail to the ward officer.

  Firestore documents are Python dictionaries with string keys; their values are modelled
  by \<open>pyval\<close>. Numbers (Python floats) are modelled as exact rationals. Calls of
  \<open>print\<close> are left out.
\<close>

subsection \<open>Python values and exceptions\<close>

datatype pyval =
    PNone
  | PBool bool
  | PNum rat
  | PStr string
  | PTime nat
  | PList "pyval list"
  | PDict "(string \<times> pyval) list"

datatype exn =
    KeyError string
  | TypeError
  | ValueError
  | AttributeError
  | NotFound
  | SMTPException

type_synonym doc = "string \<rightharpoonup> pyval"

text \<open>\<open>d[k]\<close> on a document that is known to be a dictionary.\<close>

definition getitem :: "doc \<Rightarrow> string \<Rightarrow> exn + pyval" where
  "getitem d k = (case d k of None \<Rightarrow> Inl (KeyError k) | Some v \<Rightarrow> Inr v)"

text \<open>\<open>b[k]\<close> with a string key on an arbitrary value: only a dictionary supports it.\<close>

fun subscript :: "pyval \<Rightarrow> string \<Rightarrow> exn + pyval" where
  "subscript (PDict kvs) k = (case map_of kvs k of None \<Rightarrow> Inl (KeyError k) | Some v \<Rightarrow> Inr v)"
| "subscript _ k = Inl TypeError"

text \<open>\<open>for b in v\<close>: lists give their elements, strings their characters, dictionaries
  their keys; nothing else is iterable.\<close>

fun py_iter :: "pyval \<Rightarrow> exn + pyval list" where
  "py_iter (PList xs) = Inr xs"
| "py_iter (PStr cs) = Inr (map (\<lambda>c. PStr [c]) cs)"
| "py_iter (PDict kvs) = Inr (map (\<lambda>kv. PStr (fst kv)) kvs)"
| "py_iter _ = Inl TypeError"

subsection \<open>External collaborators\<close>

text \<open>
  The e-mail handed to the SMTP session: sender (the environment variable
  \<open>EMAIL_SENDER\<close>, possibly unset), recipient, and the values interpolated into the subject
  and into the HTML body, in the order of the f-strings.
\<close>

record email =
  mail_from :: "string option"
  mail_to :: pyval
  mail_subject :: "pyval list"
  mail_body :: "pyval list"

text \<open>
  What the code calls and does not define is a parameter of the model:
  \<^item> \<open>Polygon\<close> and \<open>contains\<close>: Shapely's polygon constructor, which may raise, and
    \<open>polygon.contains(Point(lat, long))\<close>;
  \<^item> \<open>float_of_str\<close>: the parser behind \<open>float(s)\<close> on a string;
  \<^item> \<open>smtp_session\<close>: the whole \<open>with smtplib.SMTP(...)\<close> block (connect, STARTTLS, login,
    send): \<open>None\<close> when it completes, \<open>Some e\<close> when it raises;
  \<^item> \<open>email_sender\<close>: the configured sender; \<open>server_timestamp\<close>: the value Firestore
    writes for \<open>SERVER_TIMESTAMP\<close>.
\<close>

record 'g env =
  Polygon :: "(pyval \<times> pyval) list \<Rightarrow> exn + 'g"
  contains :: "'g \<Rightarrow> rat \<times> rat \<Rightarrow> bool"
  float_of_str :: "string \<Rightarrow> rat option"
  smtp_session :: "email \<Rightarrow> exn option"
  email_sender :: "string option"
  server_timestamp :: nat

subsection \<open>The store and the trace of effects\<close>

text \<open>
  \<open>issues\<close> is the collection \<open>issues\<close> by document ID; \<open>wards\<close> is the collection
  \<open>ward\<close> as the sequence of (document ID, document) that \<open>stream()\<close> yields. \<open>trace\<close>
  records, in order, every \<open>update\<close> of an issue document and every SMTP session opened.
  Store calls are taken to succeed unless the document is absent.
\<close>

datatype event =
    Update string "(string \<times> pyval) list"
  | SmtpSession email

record world =
  issues :: "string \<rightharpoonup> doc"
  wards :: "(string \<times> doc) list"
  trace :: "event list"

definition apply_fields :: "doc \<Rightarrow> (string \<times> pyval) list \<Rightarrow> doc" where
  "apply_fields d fs = fold (\<lambda>kv m. m(fst kv \<mapsto> snd kv)) fs d"

text \<open>\<open>issue_ref.update(fs)\<close>: one write of all the fields; raises on a missing document.\<close>

definition update_issue :: "string \<Rightarrow> (string \<times> pyval) list \<Rightarrow> world \<Rightarrow> exn + world" where
  "update_issue issue_id fs s =
     (case issues s issue_id of
        None \<Rightarrow> Inl NotFound
      | Some d \<Rightarrow>
          Inr (s\<lparr>issues := (issues s)(issue_id \<mapsto> apply_fields d fs),
                 trace := trace s @ [Update issue_id fs]\<rparr>))"

definition sessions :: "event list \<Rightarrow> email list" where
  "sessions tr = concat (map (\<lambda>ev. case ev of SmtpSession m \<Rightarrow> [m] | Update i fs \<Rightarrow> []) tr)"

subsection \<open>\<open>point_in_polygon\<close>\<close>

text \<open>The list comprehension \<open>[(b['lat'], b['lng']) for b in boundaries]\<close>.\<close>

fun polygon_coords :: "pyval list \<Rightarrow> exn + (pyval \<times> pyval) list" where
  "polygon_coords [] = Inr []"
| "polygon_coords (b # bs) =
     (case subscript b ''lat'' of
        Inl e \<Rightarrow> Inl e
      | Inr la \<Rightarrow>
          (case subscript b ''lng'' of
             Inl e \<Rightarrow> Inl e
           | Inr lo \<Rightarrow>
               (case polygon_coords bs of
                  Inl e \<Rightarrow> Inl e
                | Inr cs \<Rightarrow> Inr ((la, lo) # cs))))"

definition point_in_polygon :: "'g env \<Rightarrow> rat \<Rightarrow> rat \<Rightarrow> pyval \<Rightarrow> exn + bool" where
  "point_in_polygon env lat long boundaries =
     (case py_iter boundaries of
        Inl e \<Rightarrow> Inl e
      | Inr bs \<Rightarrow>
          (case polygon_coords bs of
             Inl e \<Rightarrow> Inl e
           | Inr cs \<Rightarrow>
               (case Polygon env cs of
                  Inl e \<Rightarrow> Inl e
                | Inr g \<Rightarrow> Inr (contains env g (lat, long)))))"

subsection \<open>\<open>find_ward_for_location\<close>\<close>

text \<open>The \<open>for ward_doc in wards\<close> loop; the ward returned carries its document ID as \<open>id\<close>.\<close>

fun scan_wards :: "'g env \<Rightarrow> rat \<Rightarrow> rat \<Rightarrow> (string \<times> doc) list \<Rightarrow> exn + doc option" where
  "scan_wards env lat long [] = Inr None"
| "scan_wards env lat long (ward_doc # rest) =
     (let ward = (snd ward_doc)(''id'' \<mapsto> PStr (fst ward_doc)) in
      case ward ''boundaries'' of
        None \<Rightarrow> scan_wards env lat long rest
      | Some bnd \<Rightarrow>
          (case point_in_polygon env lat long bnd of
             Inl e \<Rightarrow> Inl e
           | Inr True \<Rightarrow> Inr (Some ward)
           | Inr False \<Rightarrow> scan_wards env lat long rest))"

definition find_ward_for_location ::
  "'g env \<Rightarrow> (string \<times> doc) list \<Rightarrow> rat \<Rightarrow> rat \<Rightarrow> exn + doc option" where
  "find_ward_for_location env ws lat long =
     (if ws = [] then Inr None else scan_wards env lat long ws)"

subsection \<open>\<open>send_email_notification\<close>\<close>

definition bind_exn :: "exn + 'a \<Rightarrow> ('a \<Rightarrow> exn + 'b) \<Rightarrow> exn + 'b" where
  "bind_exn m f = (case m of Inl e \<Rightarrow> Inl e | Inr x \<Rightarrow> f x)"

text \<open>\<open>created_at.strftime(...)\<close>: only a timestamp has the method.\<close>

fun strftime :: "pyval \<Rightarrow> exn + pyval" where
  "strftime (PTime t) = Inr (PTime t)"
| "strftime _ = Inl AttributeError"

text \<open>
  The part of the \<open>try\<close> block before the SMTP session: the headers and the two f-strings.
  A missing key raises where the f-string reads it; a key read a second time is not
  looked up again here.
\<close>

definition build_message :: "'g env \<Rightarrow> pyval \<Rightarrow> doc \<Rightarrow> doc \<Rightarrow> exn + email" where
  "build_message env officer_email issue_data ward_data =
     bind_exn (getitem ward_data ''name'') (\<lambda>wname.
     bind_exn (getitem issue_data ''category'') (\<lambda>cat.
     bind_exn (getitem ward_data ''ward_id'') (\<lambda>wid.
     bind_exn (getitem issue_data ''description'') (\<lambda>descr.
     bind_exn (getitem issue_data ''latitude'') (\<lambda>la.
     bind_exn (getitem issue_data ''longitude'') (\<lambda>lo.
     bind_exn (getitem issue_data ''created_at'') (\<lambda>created.
     bind_exn (strftime created) (\<lambda>stamp.
     bind_exn (getitem issue_data ''id'') (\<lambda>iid.
       Inr \<lparr>mail_from = email_sender env, mail_to = officer_email,
            mail_subject = [wname, cat],
            mail_body = [wname, wid, cat, descr, la, lo, stamp, iid]\<rparr>)))))))))"

text \<open>
  The whole body is inside \<open>try ... except Exception\<close>: every exception, from building
  the message or from the SMTP session, gives \<open>False\<close>.
\<close>

definition send_email_notification ::
  "'g env \<Rightarrow> pyval \<Rightarrow> doc \<Rightarrow> doc \<Rightarrow> world \<Rightarrow> bool \<times> world" where
  "send_email_notification env officer_email issue_data ward_data s =
     (case build_message env officer_email issue_data ward_data of
        Inl e \<Rightarrow> (False, s)
      | Inr msg \<Rightarrow>
          (let s' = s\<lparr>trace := trace s @ [SmtpSession msg]\<rparr> in
           case smtp_session env msg of
             None \<Rightarrow> (True, s')
           | Some e \<Rightarrow> (False, s')))"

subsection \<open>\<open>process_new_issue\<close>\<close>

text \<open>\<open>float(v)\<close>.\<close>

fun py_float :: "'g env \<Rightarrow> pyval \<Rightarrow> exn + rat" where
  "py_float env (PNum r) = Inr r"
| "py_float env (PBool b) = Inr (if b then 1 else 0)"
| "py_float env (PStr cs) = (case float_of_str env cs of None \<Rightarrow> Inl ValueError | Some r \<Rightarrow> Inr r)"
| "py_float env _ = Inl TypeError"

text \<open>The reads of \<open>latitude\<close> and \<open>longitude\<close> and their conversion.\<close>

definition issue_location :: "'g env \<Rightarrow> doc \<Rightarrow> exn + rat \<times> rat" where
  "issue_location env issue_data =
     bind_exn (getitem issue_data ''latitude'') (\<lambda>la.
     bind_exn (getitem issue_data ''longitude'') (\<lambda>lo.
     bind_exn (py_float env la) (\<lambda>lat.
     bind_exn (py_float env lo) (\<lambda>long. Inr (lat, long)))))"

definition no_ward_fields :: "(string \<times> pyval) list" where
  "no_ward_fields = [(''ward_assigned'', PBool False), (''notification_sent'', PBool False)]"

definition ward_fields :: "pyval \<Rightarrow> pyval \<Rightarrow> (string \<times> pyval) list" where
  "ward_fields wid wname =
     [(''ward_id'', wid), (''ward_name'', wname), (''ward_assigned'', PBool True)]"

definition status_fields :: "'g env \<Rightarrow> bool \<Rightarrow> (string \<times> pyval) list" where
  "status_fields env email_sent =
     [(''notification_sent'', PBool email_sent),
      (''notification_email_sent'', PBool email_sent),
      (''notification_time'', PTime (server_timestamp env))]"

text \<open>
  Every exception inside the \<open>try\<close> block gives \<open>False\<close>; the writes made before it stay.
\<close>

definition process_new_issue :: "'g env \<Rightarrow> string \<Rightarrow> world \<Rightarrow> bool \<times> world" where
  "process_new_issue env issue_id s =
     (case issues s issue_id of
        None \<Rightarrow> (False, s)
      | Some d \<Rightarrow>
          (let issue_data = d(''id'' \<mapsto> PStr issue_id) in
           case issue_location env issue_data of
             Inl e \<Rightarrow> (False, s)
           | Inr (lat, long) \<Rightarrow>
               (case find_ward_for_location env (wards s) lat long of
                  Inl e \<Rightarrow> (False, s)
                | Inr None \<Rightarrow>
                    (case update_issue issue_id no_ward_fields s of
                       Inl e \<Rightarrow> (False, s)
                     | Inr s1 \<Rightarrow> (False, s1))
                | Inr (Some ward) \<Rightarrow>
                    (case getitem ward ''ward_id'' of
                       Inl e \<Rightarrow> (False, s)
                     | Inr wid \<Rightarrow>
                    (case getitem ward ''name'' of
                       Inl e \<Rightarrow> (False, s)
                     | Inr wname \<Rightarrow>
                    (case update_issue issue_id (ward_fields wid wname) s of
                       Inl e \<Rightarrow> (False, s)
                     | Inr s1 \<Rightarrow>
                    (case getitem ward ''officer_email'' of
                       Inl e \<Rightarrow> (False, s1)
                     | Inr officer \<Rightarrow>
                    (case send_email_notification env officer issue_data ward s1 of
                       (email_sent, s2) \<Rightarrow>
                    (case update_issue issue_id (status_fields env email_sent) s2 of
                       Inl e \<Rightarrow> (False, s2)
                     | Inr s3 \<Rightarrow> (True, s3))))))))))"

subsection \<open>Sample data of the source\<close>

text \<open>The two wards written by \<open>setup_ward_collection\<close>, in the order of their document IDs.\<close>

definition vertex :: "rat \<Rightarrow> rat \<Rightarrow> pyval" where
  "vertex la lo = PDict [(''lat'', PNum la), (''lng'', PNum lo)]"

definition central_ward :: doc where
  "central_ward = map_of
     [(''ward_id'', PStr ''ward001''),
      (''name'', PStr ''Central Ward''),
      (''officer_email'', PStr ''aryaniaf2608@gmail.com''),
      (''boundaries'', PList [vertex 12.9716 77.5946, vertex 12.9796 77.5946,
                              vertex 12.9796 77.6046, vertex 12.9716 77.6046]),
      (''area_sq_meters'', PNum 120000)]"

definition north_ward :: doc where
  "north_ward = map_of
     [(''ward_id'', PStr ''ward002''),
      (''name'', PStr ''North Ward''),
      (''officer_email'', PStr ''nikhilrrvk@gmail.com''),
      (''boundaries'', PList [vertex 13.0016 77.5946, vertex 13.0096 77.5946,
                              vertex 13.0096 77.6046, vertex 13.0016 77.6046]),
      (''area_sq_meters'', PNum 140000)]"

definition sample_wards :: "(string \<times> doc) list" where
  "sample_wards = [(''ward001'', central_ward), (''ward002'', north_ward)]"

text \<open>
  The issue of \<open>test_with_sample_issue\<close> (without its two Kannada fields and its image
  path), parameterised by its coordinates.
\<close>

definition issue_at :: "rat \<Rightarrow> rat \<Rightarrow> doc" where
  "issue_at la lo = map_of
     [(''latitude'', PNum la),
      (''longitude'', PNum lo),
      (''category'', PStr ''Road Damage''),
      (''description'', PStr ''Large pothole causing traffic issues''),
      (''status'', PStr ''open''),
      (''created_at'', PTime 0),
      (''similar_count'', PNum 0)]"

subsection \<open>A reference geometry for concrete runs\<close>

text \<open>
  Shapely is not part of the program. To run the model on concrete data the parameters
  \<open>Polygon\<close> and \<open>contains\<close> are instantiated with a reference geometry on exact rationals:
  the constructor accepts an empty coordinate list (the empty polygon), closes the ring,
  and raises \<open>ValueError\<close> on a closed ring of fewer than four coordinates; a point is
  contained when a ray to the right crosses the ring an odd number of times and the point
  is on no segment of it.
\<close>

definition cross :: "rat \<times> rat \<Rightarrow> rat \<times> rat \<Rightarrow> rat \<times> rat \<Rightarrow> rat" where
  "cross a b p = (fst b - fst a) * (snd p - snd a) - (snd b - snd a) * (fst p - fst a)"

definition on_segment :: "rat \<times> rat \<Rightarrow> rat \<times> rat \<Rightarrow> rat \<times> rat \<Rightarrow> bool" where
  "on_segment a b p \<longleftrightarrow>
     cross a b p = 0 \<and> min (fst a) (fst b) \<le> fst p \<and> fst p \<le> max (fst a) (fst b)
       \<and> min (snd a) (snd b) \<le> snd p \<and> snd p \<le> max (snd a) (snd b)"

definition crosses :: "rat \<times> rat \<Rightarrow> rat \<times> rat \<Rightarrow> rat \<times> rat \<Rightarrow> bool" where
  "crosses a b p \<longleftrightarrow>
     (snd a > snd p \<and> snd b \<le> snd p \<and> cross a b p < 0)
       \<or> (snd b > snd p \<and> snd a \<le> snd p \<and> cross a b p > 0)"

fun ring_scan :: "rat \<times> rat \<Rightarrow> (rat \<times> rat) list \<Rightarrow> bool \<times> nat" where
  "ring_scan p (a # b # rest) =
     (case ring_scan p (b # rest) of
        (on, n) \<Rightarrow> (on \<or> on_segment a b p, if crosses a b p then Suc n else n))"
| "ring_scan p _ = (False, 0)"

definition ref_contains :: "(rat \<times> rat) list \<Rightarrow> rat \<times> rat \<Rightarrow> bool" where
  "ref_contains ring p = (case ring_scan p ring of (on, n) \<Rightarrow> \<not> on \<and> odd n)"

fun numeric_coords :: "(pyval \<times> pyval) list \<Rightarrow> (rat \<times> rat) list option" where
  "numeric_coords [] = Some []"
| "numeric_coords ((PNum x, PNum y) # cs) =
     (case numeric_coords cs of None \<Rightarrow> None | Some ps \<Rightarrow> Some ((x, y) # ps))"
| "numeric_coords _ = None"

definition ref_Polygon :: "(pyval \<times> pyval) list \<Rightarrow> exn + (rat \<times> rat) list" where
  "ref_Polygon cs =
     (case numeric_coords cs of
        None \<Rightarrow> Inl TypeError
      | Some ps \<Rightarrow>
          (if ps = [] then Inr []
           else (let ring = (if last ps = hd ps then ps else ps @ [hd ps]) in
                 if length ring < 4 then Inl ValueError else Inr ring)))"

text \<open>The reference environment; \<open>ok\<close> says whether the SMTP session succeeds.\<close>

definition ref_env :: "bool \<Rightarrow> (rat \<times> rat) list env" where
  "ref_env ok =
     \<lparr>Polygon = ref_Polygon, contains = ref_contains, float_of_str = (\<lambda>cs. None),
      smtp_session = (\<lambda>m. if ok then None else Some SMTPException),
      email_sender = Some ''sender@example.org'', server_timestamp = 1\<rparr>"

subsection \<open>Predicates of the statements and further sample data\<close>

text \<open>
  What one iteration of the loop of \<open>find_ward_for_location\<close> does with a ward document:
  it passes over it (no \<open>boundaries\<close> field, or the test returns \<open>False\<close>), or it returns
  it (the test returns \<open>True\<close>).
\<close>

definition ward_misses :: "'g env \<Rightarrow> rat \<Rightarrow> rat \<Rightarrow> doc \<Rightarrow> bool" where
  "ward_misses env lat long d =
     (case d ''boundaries'' of
        None \<Rightarrow> True
      | Some bnd \<Rightarrow> point_in_polygon env lat long bnd = Inr False)"

definition ward_hits :: "'g env \<Rightarrow> rat \<Rightarrow> rat \<Rightarrow> doc \<Rightarrow> bool" where
  "ward_hits env lat long d =
     (case d ''boundaries'' of
        None \<Rightarrow> False
      | Some bnd \<Rightarrow> point_in_polygon env lat long bnd = Inr True)"

text \<open>A stored field of an issue document.\<close>

definition issue_field :: "world \<Rightarrow> string \<Rightarrow> string \<Rightarrow> pyval option" where
  "issue_field s issue_id k = (case issues s issue_id of None \<Rightarrow> None | Some d \<Rightarrow> d k)"

text \<open>
  The issue and the ward carry every field that the subject and the body of the e-mail
  read, and \<open>created_at\<close> is a timestamp.
\<close>

definition payload_fields_present :: "doc \<Rightarrow> doc \<Rightarrow> bool" where
  "payload_fields_present issue_data ward_data \<longleftrightarrow>
     ward_data ''name'' \<noteq> None \<and> ward_data ''ward_id'' \<noteq> None
     \<and> issue_data ''category'' \<noteq> None \<and> issue_data ''description'' \<noteq> None
     \<and> issue_data ''latitude'' \<noteq> None \<and> issue_data ''longitude'' \<noteq> None
     \<and> (case issue_data ''created_at'' of Some (PTime t) \<Rightarrow> True | _ \<Rightarrow> False)
     \<and> issue_data ''id'' \<noteq> None"

text \<open>The coordinate list that \<open>point_in_polygon\<close> builds from the Central Ward boundary.\<close>

definition central_coords :: "(pyval \<times> pyval) list" where
  "central_coords =
     [(PNum 12.9716, PNum 77.5946), (PNum 12.9796, PNum 77.5946),
      (PNum 12.9796, PNum 77.6046), (PNum 12.9716, PNum 77.6046)]"


definition two_vertex_ward :: doc where
  "two_vertex_ward = map_of
     [(''ward_id'', PStr ''ward000''),
      (''name'', PStr ''Sliver Ward''),
      (''officer_email'', PStr ''sliver@example.org''),
      (''boundaries'', PList [vertex 12.9716 77.5946, vertex 12.9796 77.6046]),
      (''area_sq_meters'', PNum 0)]"

text \<open>An issue document that has its coordinates and nothing else.\<close>

definition bare_issue :: doc where
  "bare_issue = map_of
     [(''latitude'', PNum 12.9756), (''longitude'', PNum 77.5996), (''id'', PStr ''issue3'')]"

text \<open>
  A store with the two sample wards, \<open>issue1\<close> at the point of \<open>test_with_sample_issue\<close>
  and \<open>issue2\<close> north of the Central Ward and south of the North Ward; then the store
  after one run of \<open>process_new_issue\<close> on each.
\<close>

definition sample_world :: world where
  "sample_world =
     \<lparr>issues = [''issue1'' \<mapsto> issue_at 12.9756 77.5996,
                ''issue2'' \<mapsto> issue_at 12.9900 77.5996],
      wards = sample_wards, trace = []\<rparr>"

definition after_first :: world where
  "after_first = snd (process_new_issue (ref_env True) ''issue1'' sample_world)"

definition after_no_coverage :: world where
  "after_no_coverage = snd (process_new_issue (ref_env True) ''issue2'' sample_world)"

section \<open>Properties\<close>

subsection \<open>Auxiliary facts\<close>

lemmas geo = point_in_polygon_def central_ward_def north_ward_def vertex_def ref_env_def
  ref_Polygon_def ref_contains_def crosses_def on_segment_def cross_def

lemmas run = process_new_issue_def issue_location_def bind_exn_def getitem_def issue_at_def
  sample_world_def sample_wards_def find_ward_for_location_def update_issue_def
  send_email_notification_def build_message_def apply_fields_def ward_fields_def
  status_fields_def no_ward_fields_def issue_field_def sessions_def geo

lemma sessions_append: "sessions (xs @ ys) = sessions xs @ sessions ys"
  by (simp add: sessions_def)

lemma sessions_simps:
  "sessions [] = []"
  "sessions (Update i fs # tr) = sessions tr"
  "sessions (SmtpSession m # tr) = m # sessions tr"
  by (simp_all add: sessions_def)

lemma apply_ward_fields:
  "apply_fields d (ward_fields wid wname) =
     d(''ward_id'' \<mapsto> wid, ''ward_name'' \<mapsto> wname, ''ward_assigned'' \<mapsto> PBool True)"
  by (simp add: apply_fields_def ward_fields_def)

lemma apply_status_fields:
  "apply_fields d (status_fields env b) =
     d(''notification_sent'' \<mapsto> PBool b, ''notification_email_sent'' \<mapsto> PBool b,
       ''notification_time'' \<mapsto> PTime (server_timestamp env))"
  by (simp add: apply_fields_def status_fields_def)

lemma apply_no_ward_fields:
  "apply_fields d no_ward_fields =
     d(''ward_assigned'' \<mapsto> PBool False, ''notification_sent'' \<mapsto> PBool False)"
  by (simp add: apply_fields_def no_ward_fields_def)

lemma map_upd_same2:
  "d k1 = Some v1 \<Longrightarrow> d k2 = Some v2 \<Longrightarrow> d(k1 \<mapsto> v1, k2 \<mapsto> v2) = d"
  by (auto simp: fun_eq_iff)

subsubsection \<open>The loop over the wards\<close>

lemma find_ward_scan:
  "find_ward_for_location env ws lat long = scan_wards env lat long ws"
  by (cases ws) (simp_all add: find_ward_for_location_def)

lemma scan_wards_skip:
  "\<forall>wd\<in>set pre. ward_misses env lat long (snd wd) \<Longrightarrow>
   scan_wards env lat long (pre @ rest) = scan_wards env lat long rest"
  by (induction pre) (auto simp: ward_misses_def split: option.splits)

lemma scan_wards_none:
  "\<forall>wd\<in>set ws. ward_misses env lat long (snd wd) \<Longrightarrow> scan_wards env lat long ws = Inr None"
  by (induction ws) (auto simp: ward_misses_def split: option.splits)

lemma scan_wards_hit:
  "ward_hits env lat long d \<Longrightarrow>
   scan_wards env lat long ((wid, d) # post) = Inr (Some (d(''id'' \<mapsto> PStr wid)))"
  by (auto simp: ward_hits_def split: option.splits)

lemma central_hit:
  assumes "Polygon env central_coords = Inr g" and "contains env g (lat, long)"
  shows "ward_hits env lat long central_ward"
  using assms
  by (simp add: ward_hits_def central_ward_def point_in_polygon_def vertex_def central_coords_def)

subsubsection \<open>The dispatcher\<close>

lemma send_built:
  "build_message env officer issue_data ward = Inr m \<Longrightarrow>
   send_email_notification env officer issue_data ward s =
     (smtp_session env m = None, s\<lparr>trace := trace s @ [SmtpSession m]\<rparr>)"
  by (simp add: send_email_notification_def Let_def split: option.splits)

lemma send_unbuilt:
  "build_message env officer issue_data ward = Inl e \<Longrightarrow>
   send_email_notification env officer issue_data ward s = (False, s)"
  by (simp add: send_email_notification_def)

lemma build_message_present:
  assumes "payload_fields_present issue_data ward_data"
  shows "\<exists>m. build_message env officer issue_data ward_data = Inr m \<and> mail_to m = officer"
proof -
  from assms obtain wn wid cat descr la lo t iid where
    "ward_data ''name'' = Some wn" "ward_data ''ward_id'' = Some wid"
    "issue_data ''category'' = Some cat" "issue_data ''description'' = Some descr"
    "issue_data ''latitude'' = Some la" "issue_data ''longitude'' = Some lo"
    "issue_data ''created_at'' = Some (PTime t)" "issue_data ''id'' = Some iid"
    by (auto simp: payload_fields_present_def split: option.splits pyval.splits)
  then show ?thesis
    by (simp add: build_message_def bind_exn_def getitem_def)
qed

lemma strftime_Inr: "strftime v = Inr w \<Longrightarrow> \<exists>t. v = PTime t"
  by (cases v) auto

lemma build_message_absent:
  assumes "build_message env officer issue_data ward_data = Inr m"
  shows "payload_fields_present issue_data ward_data"
  using assms
  by (auto simp: build_message_def bind_exn_def getitem_def payload_fields_present_def
        split: option.splits sum.splits dest: strftime_Inr)

subsubsection \<open>The paths through \<open>process_new_issue\<close>\<close>

lemma update_issue_Some:
  "issues s i = Some d \<Longrightarrow>
   update_issue i fs s =
     Inr (s\<lparr>issues := (issues s)(i \<mapsto> apply_fields d fs), trace := trace s @ [Update i fs]\<rparr>)"
  by (simp add: update_issue_def)

lemma issue_location_num:
  "d ''latitude'' = Some (PNum lat) \<Longrightarrow> d ''longitude'' = Some (PNum long) \<Longrightarrow>
   issue_location env (d(''id'' \<mapsto> PStr iid)) = Inr (lat, long)"
  by (simp add: issue_location_def bind_exn_def getitem_def)


lemma process_no_ward:
  assumes "issues s iid = Some d"
    and "issue_location env (d(''id'' \<mapsto> PStr iid)) = Inr (lat, long)"
    and "find_ward_for_location env (wards s) lat long = Inr None"
  shows "process_new_issue env iid s =
           (False, s\<lparr>issues := (issues s)(iid \<mapsto> apply_fields d no_ward_fields),
                      trace := trace s @ [Update iid no_ward_fields]\<rparr>)"
  using assms by (simp add: process_new_issue_def update_issue_Some)

lemma process_resolved_sent:
  assumes "issues s iid = Some d"
    and "issue_location env (d(''id'' \<mapsto> PStr iid)) = Inr (lat, long)"
    and "find_ward_for_location env (wards s) lat long = Inr (Some ward)"
    and "ward ''ward_id'' = Some wid" and "ward ''name'' = Some wname"
    and "ward ''officer_email'' = Some officer"
    and "build_message env officer (d(''id'' \<mapsto> PStr iid)) ward = Inr m"
  shows "process_new_issue env iid s =
           (True,
            s\<lparr>issues := (issues s)(iid \<mapsto>
                 apply_fields (apply_fields d (ward_fields wid wname))
                   (status_fields env (smtp_session env m = None))),
              trace := trace s @ [Update iid (ward_fields wid wname), SmtpSession m,
                 Update iid (status_fields env (smtp_session env m = None))]\<rparr>)"
  using assms
  by (simp add: process_new_issue_def getitem_def update_issue_Some send_built)

lemma process_resolved_unbuilt:
  assumes "issues s iid = Some d"
    and "issue_location env (d(''id'' \<mapsto> PStr iid)) = Inr (lat, long)"
    and "find_ward_for_location env (wards s) lat long = Inr (Some ward)"
    and "ward ''ward_id'' = Some wid" and "ward ''name'' = Some wname"
    and "ward ''officer_email'' = Some officer"
    and "build_message env officer (d(''id'' \<mapsto> PStr iid)) ward = Inl e"
  shows "process_new_issue env iid s =
           (True,
            s\<lparr>issues := (issues s)(iid \<mapsto>
                 apply_fields (apply_fields d (ward_fields wid wname)) (status_fields env False)),
              trace := trace s @ [Update iid (ward_fields wid wname),
                 Update iid (status_fields env False)]\<rparr>)"
  using assms
  by (simp add: process_new_issue_def getitem_def update_issue_Some send_unbuilt)


subsection \<open>The lookup\<close>



text \<open>
  C7: over an empty ward collection the lookup returns \<open>None\<close> (no ward) for every point;
  it does not raise.
\<close>

theorem find_ward_empty:
  "find_ward_for_location env [] lat long = Inr None"
  by (simp add: find_ward_for_location_def)

text \<open>
  C2, as the code has it: \<open>point_in_polygon\<close> counts no vertices. When the polygon
  constructor of the geometry library rejects the coordinates of a ward boundary with an
  exception, the containment test raises that exception, and \<open>find_ward_for_location\<close>,
  which catches nothing, raises it too: the wards after that ward are not examined.
\<close>

theorem polygon_exception_aborts_lookup:
  assumes "\<forall>wd\<in>set pre. ward_misses env lat long (snd wd)"
    and "d ''boundaries'' = Some bnd"
    and "py_iter bnd = Inr bs" and "polygon_coords bs = Inr cs"
    and "Polygon env cs = Inl e"
  shows "point_in_polygon env lat long bnd = Inl e
       \<and> find_ward_for_location env (pre @ (wid, d) # post) lat long = Inl e"
proof -
  have raised: "point_in_polygon env lat long bnd = Inl e"
    using assms(3-5) by (simp add: point_in_polygon_def)
  have "scan_wards env lat long (pre @ (wid, d) # post) = scan_wards env lat long ((wid, d) # post)"
    using assms(1) by (rule scan_wards_skip)
  also have "\<dots> = Inl e"
    using assms(2) raised by simp
  finally show ?thesis
    using raised by (simp add: find_ward_scan)
qed

text \<open>
  Witness for the amended C2: a ward of two vertices between the North Ward and the
  Central Ward; the reference constructor raises \<open>ValueError\<close>, and so does the lookup.
\<close>

theorem polygon_exception_aborts_lookup_witness:
  "point_in_polygon (ref_env True) 12.9756 77.5996
      (PList [vertex 12.9716 77.5946, vertex 12.9796 77.6046]) = Inl ValueError
   \<and> find_ward_for_location (ref_env True)
        ([(''ward002'', north_ward)] @ (''ward000'', two_vertex_ward) # [(''ward001'', central_ward)])
        12.9756 77.5996 = Inl ValueError"
proof -
  have a: "\<forall>wd\<in>set [(''ward002'', north_ward)]. ward_misses (ref_env True) 12.9756 77.5996 (snd wd)"
    by (simp add: ward_misses_def geo)
  have b: "two_vertex_ward ''boundaries''
             = Some (PList [vertex 12.9716 77.5946, vertex 12.9796 77.6046])"
    by (simp add: two_vertex_ward_def)
  have c: "py_iter (PList [vertex 12.9716 77.5946, vertex 12.9796 77.6046])
             = Inr [vertex 12.9716 77.5946, vertex 12.9796 77.6046]"
    by simp
  have d: "polygon_coords [vertex 12.9716 77.5946, vertex 12.9796 77.6046]
             = Inr [(PNum 12.9716, PNum 77.5946), (PNum 12.9796, PNum 77.6046)]"
    by (simp add: vertex_def)
  have e: "Polygon (ref_env True) [(PNum 12.9716, PNum 77.5946), (PNum 12.9796, PNum 77.6046)]
             = Inl ValueError"
    by (simp add: ref_env_def ref_Polygon_def)
  show ?thesis
    by (rule polygon_exception_aborts_lookup
          [where d = two_vertex_ward and wid = "''ward000''"
             and post = "[(''ward001'', central_ward)]", OF a b c d e])
qed

text \<open>
  Counterexample to C2 as stated: with the two-vertex ward first in the order, the lookup
  for the point of the sample issue raises \<open>ValueError\<close> although the Central Ward, next in
  the order, contains the point; and on a boundary with no vertex the containment test
  returns \<open>False\<close> without signalling anything.
\<close>

theorem degenerate_ward_counterexample:
  "find_ward_for_location (ref_env True)
      [(''ward000'', two_vertex_ward), (''ward001'', central_ward)] 12.9756 77.5996
     = Inl ValueError
   \<and> ward_hits (ref_env True) 12.9756 77.5996 central_ward
   \<and> point_in_polygon (ref_env True) 12.9756 77.5996 (PList []) = Inr False"
  by (simp add: find_ward_for_location_def two_vertex_ward_def ward_hits_def geo)

subsection \<open>The dispatcher\<close>

text \<open>
  C8, as the code has it: \<open>send_email_notification\<close> returns a boolean for every input,
  since its whole body is inside \<open>try ... except Exception\<close>, and it never touches the
  issue documents. When the issue and the ward carry the fields the message reads, one
  invocation opens exactly one SMTP session, with the e-mail for the given officer, and
  returns \<open>True\<close> exactly when that session completed: a fault of the transport gives
  \<open>False\<close> and no second session. When one of those fields is missing, the exception is
  caught as well: the result is \<open>False\<close> and no session is opened at all.
\<close>

theorem dispatcher_contract:
  assumes "send_email_notification env officer issue_data ward_data s = (sent, s')"
  shows "issues s' = issues s
       \<and> (payload_fields_present issue_data ward_data \<longrightarrow>
            (\<exists>m. trace s' = trace s @ [SmtpSession m] \<and> mail_to m = officer
                 \<and> sent = (smtp_session env m = None)))
       \<and> (\<not> payload_fields_present issue_data ward_data \<longrightarrow> sent = False \<and> s' = s)"
proof (cases "build_message env officer issue_data ward_data")
  case (Inl e)
  then have absent: "\<not> payload_fields_present issue_data ward_data"
    using build_message_present [of issue_data ward_data env officer] by auto
  from send_unbuilt [OF Inl] assms have "sent = False" "s' = s"
    by simp_all
  with absent show ?thesis
    by simp
next
  case (Inr m)
  then have present: "payload_fields_present issue_data ward_data"
    by (rule build_message_absent)
  from build_message_present [OF present, of env officer] Inr have to: "mail_to m = officer"
    by simp
  from send_built [OF Inr] assms
  have "sent = (smtp_session env m = None)" "s' = s\<lparr>trace := trace s @ [SmtpSession m]\<rparr>"
    by simp_all
  with present to show ?thesis
    by simp
qed

text \<open>
  Witness for the amended C8: the sample issue and the Central Ward with a failing
  transport (one session, result \<open>False\<close>), and the issue without a category (no session).
\<close>

theorem dispatcher_contract_witness:
  "(\<exists>m. trace (snd (send_email_notification (ref_env False) (PStr ''aryaniaf2608@gmail.com'')
                      ((issue_at 12.9756 77.5996)(''id'' \<mapsto> PStr ''issue1'')) central_ward
                      sample_world))
           = trace sample_world @ [SmtpSession m]
        \<and> mail_to m = PStr ''aryaniaf2608@gmail.com''
        \<and> fst (send_email_notification (ref_env False) (PStr ''aryaniaf2608@gmail.com'')
                      ((issue_at 12.9756 77.5996)(''id'' \<mapsto> PStr ''issue1'')) central_ward
                      sample_world)
           = (smtp_session (ref_env False) m = None))
   \<and> fst (send_email_notification (ref_env True) (PStr ''aryaniaf2608@gmail.com'')
             bare_issue central_ward sample_world) = False
   \<and> snd (send_email_notification (ref_env True) (PStr ''aryaniaf2608@gmail.com'')
             bare_issue central_ward sample_world) = sample_world"
proof -
  have a: "payload_fields_present ((issue_at 12.9756 77.5996)(''id'' \<mapsto> PStr ''issue1''))
             central_ward"
    by (simp add: payload_fields_present_def issue_at_def central_ward_def)
  have b: "\<not> payload_fields_present bare_issue central_ward"
    by (simp add: payload_fields_present_def bare_issue_def)
  from dispatcher_contract [OF prod.collapse [symmetric]] a
       dispatcher_contract [OF prod.collapse [symmetric]] b
  show ?thesis
    by blast
qed

text \<open>
  Counterexample to C8 as stated: for an issue without \<open>category\<close> the subject line
  raises \<open>KeyError\<close> before the SMTP session; the dispatcher returns \<open>False\<close> and this
  invocation makes no transport call.
\<close>

theorem dispatcher_counterexample:
  "send_email_notification (ref_env True) (PStr ''aryaniaf2608@gmail.com'')
      bare_issue central_ward sample_world = (False, sample_world)
   \<and> sessions (trace (snd (send_email_notification (ref_env True)
        (PStr ''aryaniaf2608@gmail.com'') bare_issue central_ward sample_world))) = []"
  by (simp add: send_email_notification_def build_message_def bind_exn_def getitem_def
        bare_issue_def central_ward_def sample_world_def sessions_def)

subsection \<open>The processor\<close>





text \<open>
  C9: an issue stored with latitude 12.9756 and longitude 77.5996, processed against the
  two sample wards with a geometry library that builds the Central Ward polygon and
  reports the point inside it: \<open>process_new_issue\<close> returns \<open>True\<close>, the issue document
  ends with \<open>ward_id = ward001\<close>, \<open>ward_name = Central Ward\<close> and \<open>ward_assigned = True\<close>,
  and \<open>notification_sent\<close> is a boolean that is \<open>True\<close> exactly when one SMTP session was
  opened and completed.
\<close>

theorem central_ward_end_to_end:
  assumes "issues s iid = Some d"
    and "d ''latitude'' = Some (PNum 12.9756)" and "d ''longitude'' = Some (PNum 77.5996)"
    and "wards s = sample_wards"
    and "Polygon env central_coords = Inr g" and "contains env g (12.9756, 77.5996)"
    and "process_new_issue env iid s = (r, s')"
  shows "r = True
       \<and> issue_field s' iid ''ward_id'' = Some (PStr ''ward001'')
       \<and> issue_field s' iid ''ward_name'' = Some (PStr ''Central Ward'')
       \<and> issue_field s' iid ''ward_assigned'' = Some (PBool True)
       \<and> (\<exists>b. issue_field s' iid ''notification_sent'' = Some (PBool b)
              \<and> (b \<longleftrightarrow> (\<exists>m. sessions (trace s') = sessions (trace s) @ [m]
                              \<and> smtp_session env m = None)))"
proof -
  let ?ward = "central_ward(''id'' \<mapsto> PStr ''ward001'')"
  let ?data = "d(''id'' \<mapsto> PStr iid)"
  let ?officer = "PStr ''aryaniaf2608@gmail.com''"
  let ?assign = "ward_fields (PStr ''ward001'') (PStr ''Central Ward'')"
  have loc: "issue_location env ?data = Inr (12.9756, 77.5996)"
    by (rule issue_location_num [OF assms(2,3)])
  have found: "find_ward_for_location env (wards s) 12.9756 77.5996 = Inr (Some ?ward)"
    unfolding assms(4) sample_wards_def find_ward_scan
    by (rule scan_wards_hit [OF central_hit [OF assms(5,6)]])
  have wid: "?ward ''ward_id'' = Some (PStr ''ward001'')"
    and wname: "?ward ''name'' = Some (PStr ''Central Ward'')"
    and officer: "?ward ''officer_email'' = Some ?officer"
    by (simp_all add: central_ward_def)
  show ?thesis
  proof (cases "build_message env ?officer ?data ?ward")
    case (Inl e)
    from process_resolved_unbuilt [OF assms(1) loc found wid wname officer Inl] assms(7)
    have "r = True"
      and "s' = s\<lparr>issues := (issues s)(iid \<mapsto>
                 apply_fields (apply_fields d ?assign) (status_fields env False)),
              trace := trace s @ [Update iid ?assign, Update iid (status_fields env False)]\<rparr>"
      by simp_all
    then show ?thesis
      by (auto simp: issue_field_def apply_ward_fields apply_status_fields
            sessions_append sessions_simps)
  next
    case (Inr m)
    from process_resolved_sent [OF assms(1) loc found wid wname officer Inr] assms(7)
    have "r = True"
      and "s' = s\<lparr>issues := (issues s)(iid \<mapsto>
                 apply_fields (apply_fields d ?assign)
                   (status_fields env (smtp_session env m = None))),
              trace := trace s @ [Update iid ?assign, SmtpSession m,
                 Update iid (status_fields env (smtp_session env m = None))]\<rparr>"
      by simp_all
    then show ?thesis
      by (auto simp: issue_field_def apply_ward_fields apply_status_fields
            sessions_append sessions_simps)
  qed
qed

text \<open>
  Witness for C9: the sample store with the reference geometry, whose test puts the point
  inside the Central Ward rectangle, once with a working and once with a failing transport:
  \<open>ward_assigned\<close> is \<open>True\<close> both times, \<open>notification_sent\<close> is \<open>True\<close> and \<open>False\<close>.
\<close>

theorem central_ward_end_to_end_witness:
  "fst (process_new_issue (ref_env True) ''issue1'' sample_world) = True
   \<and> issue_field (snd (process_new_issue (ref_env True) ''issue1'' sample_world))
        ''issue1'' ''ward_id'' = Some (PStr ''ward001'')
   \<and> issue_field (snd (process_new_issue (ref_env True) ''issue1'' sample_world))
        ''issue1'' ''ward_assigned'' = Some (PBool True)
   \<and> issue_field (snd (process_new_issue (ref_env True) ''issue1'' sample_world))
        ''issue1'' ''notification_sent'' = Some (PBool True)
   \<and> fst (process_new_issue (ref_env False) ''issue1'' sample_world) = True
   \<and> issue_field (snd (process_new_issue (ref_env False) ''issue1'' sample_world))
        ''issue1'' ''ward_id'' = Some (PStr ''ward001'')
   \<and> issue_field (snd (process_new_issue (ref_env False) ''issue1'' sample_world))
        ''issue1'' ''ward_assigned'' = Some (PBool True)
   \<and> issue_field (snd (process_new_issue (ref_env False) ''issue1'' sample_world))
        ''issue1'' ''notification_sent'' = Some (PBool False)"
proof -
  let ?ring = "[(12.9716, 77.5946), (12.9796, 77.5946), (12.9796, 77.6046), (12.9716, 77.6046),
                (12.9716, 77.5946)] :: (rat \<times> rat) list"
  have a: "issues sample_world ''issue1'' = Some (issue_at 12.9756 77.5996)"
    by (simp add: sample_world_def)
  have b: "issue_at 12.9756 77.5996 ''latitude'' = Some (PNum 12.9756)"
    and c: "issue_at 12.9756 77.5996 ''longitude'' = Some (PNum 77.5996)"
    by (simp_all add: issue_at_def)
  have d: "wards sample_world = sample_wards"
    by (simp add: sample_world_def)
  have e: "Polygon (ref_env ok) central_coords = Inr ?ring" for ok
    by (simp add: ref_env_def ref_Polygon_def central_coords_def)
  have f: "contains (ref_env ok) ?ring (12.9756, 77.5996)" for ok
    by (simp add: ref_env_def ref_contains_def crosses_def on_segment_def cross_def)
  have sent: "issue_field (snd (process_new_issue (ref_env True) ''issue1'' sample_world))
        ''issue1'' ''notification_sent'' = Some (PBool True)"
    and failed: "issue_field (snd (process_new_issue (ref_env False) ''issue1'' sample_world))
        ''issue1'' ''notification_sent'' = Some (PBool False)"
    by (simp_all add: run)
  from central_ward_end_to_end [OF a b c d e f prod.collapse [symmetric]]
       central_ward_end_to_end [OF a b c d e f prod.collapse [symmetric]] sent failed
  show ?thesis
    by blast
qed




text \<open>
  C1, as the code has it: \<open>process_new_issue\<close> never reads the stored \<open>ward_assigned\<close> and
  \<open>notification_sent\<close>. Run again on an issue that already has \<open>ward_assigned = False\<close> and
  \<open>notification_sent = False\<close> and that every ward still passes over, it returns \<open>False\<close>,
  leaves the issue documents as they were and opens no SMTP session. Run again on an issue
  that already has \<open>ward_assigned = True\<close> and that a ward contains, it returns \<open>True\<close>
  after opening one more SMTP session to the ward's officer, and writes the outcome of
  that session as \<open>notification_sent\<close>.
\<close>

theorem reprocess_behaviour:
  assumes "issues s iid = Some d"
    and "issue_location env (d(''id'' \<mapsto> PStr iid)) = Inr (lat, long)"
    and "process_new_issue env iid s = (r, s')"
  shows "(d ''ward_assigned'' = Some (PBool False) \<and> d ''notification_sent'' = Some (PBool False)
            \<and> (\<forall>wd\<in>set (wards s). ward_misses env lat long (snd wd))
          \<longrightarrow> r = False \<and> issues s' = issues s \<and> wards s' = wards s
              \<and> sessions (trace s') = sessions (trace s))
       \<and> (d ''ward_assigned'' = Some (PBool True)
            \<and> find_ward_for_location env (wards s) lat long = Inr (Some ward)
            \<and> ward ''officer_email'' = Some officer
            \<and> payload_fields_present (d(''id'' \<mapsto> PStr iid)) ward
          \<longrightarrow> r = True
              \<and> (\<exists>m. sessions (trace s') = sessions (trace s) @ [m] \<and> mail_to m = officer
                     \<and> issue_field s' iid ''notification_sent''
                          = Some (PBool (smtp_session env m = None))))"
proof (rule conjI; rule impI)
  assume a: "d ''ward_assigned'' = Some (PBool False) \<and> d ''notification_sent'' = Some (PBool False)
            \<and> (\<forall>wd\<in>set (wards s). ward_misses env lat long (snd wd))"
  then have "find_ward_for_location env (wards s) lat long = Inr None"
    by (simp add: find_ward_scan scan_wards_none)
  from process_no_ward [OF assms(1,2) this] assms(3)
  have r: "r = False"
    and s': "s' = s\<lparr>issues := (issues s)(iid \<mapsto> apply_fields d no_ward_fields),
                 trace := trace s @ [Update iid no_ward_fields]\<rparr>"
    by simp_all
  have same: "apply_fields d no_ward_fields = d"
    using a by (simp add: apply_no_ward_fields map_upd_same2)
  have "(issues s)(iid \<mapsto> d) = issues s"
    using assms(1) by (simp add: map_upd_triv)
  with r s' same
  show "r = False \<and> issues s' = issues s \<and> wards s' = wards s
              \<and> sessions (trace s') = sessions (trace s)"
    by (simp add: sessions_append sessions_simps)
next
  assume b: "d ''ward_assigned'' = Some (PBool True)
            \<and> find_ward_for_location env (wards s) lat long = Inr (Some ward)
            \<and> ward ''officer_email'' = Some officer
            \<and> payload_fields_present (d(''id'' \<mapsto> PStr iid)) ward"
  then obtain wid wname where w: "ward ''ward_id'' = Some wid" "ward ''name'' = Some wname"
    by (auto simp: payload_fields_present_def)
  from b build_message_present [of "d(''id'' \<mapsto> PStr iid)" ward env officer]
  obtain m where m: "build_message env officer (d(''id'' \<mapsto> PStr iid)) ward = Inr m"
    "mail_to m = officer"
    by blast
  from b have found: "find_ward_for_location env (wards s) lat long = Inr (Some ward)"
    and officer: "ward ''officer_email'' = Some officer"
    by simp_all
  from process_resolved_sent [OF assms(1,2) found w officer m(1)] assms(3)
  have "r = True" and "s' = s\<lparr>issues := (issues s)(iid \<mapsto>
                 apply_fields (apply_fields d (ward_fields wid wname))
                   (status_fields env (smtp_session env m = None))),
              trace := trace s @ [Update iid (ward_fields wid wname), SmtpSession m,
                 Update iid (status_fields env (smtp_session env m = None))]\<rparr>"
    by simp_all
  with m(2)
  show "r = True
              \<and> (\<exists>m. sessions (trace s') = sessions (trace s) @ [m] \<and> mail_to m = officer
                     \<and> issue_field s' iid ''notification_sent''
                          = Some (PBool (smtp_session env m = None)))"
    by (auto simp: issue_field_def apply_ward_fields apply_status_fields
          sessions_append sessions_simps)
qed

text \<open>
  Witness for the amended C1: \<open>issue2\<close> after a first run that found no ward, and
  \<open>issue1\<close> after a first run that assigned the Central Ward and sent the e-mail.
\<close>

theorem reprocess_behaviour_witness:
  "fst (process_new_issue (ref_env True) ''issue2'' after_no_coverage) = False
   \<and> issues (snd (process_new_issue (ref_env True) ''issue2'' after_no_coverage))
        = issues after_no_coverage
   \<and> sessions (trace (snd (process_new_issue (ref_env True) ''issue2'' after_no_coverage)))
        = sessions (trace after_no_coverage)
   \<and> fst (process_new_issue (ref_env True) ''issue1'' after_first) = True
   \<and> (\<exists>m. sessions (trace (snd (process_new_issue (ref_env True) ''issue1'' after_first)))
             = sessions (trace after_first) @ [m]
          \<and> mail_to m = PStr ''aryaniaf2608@gmail.com'')"
proof -
  let ?d2 = "(issue_at 12.9900 77.5996)
               (''ward_assigned'' \<mapsto> PBool False, ''notification_sent'' \<mapsto> PBool False)"
  let ?d1 = "(issue_at 12.9756 77.5996)
               (''ward_id'' \<mapsto> PStr ''ward001'', ''ward_name'' \<mapsto> PStr ''Central Ward'',
                ''ward_assigned'' \<mapsto> PBool True, ''notification_sent'' \<mapsto> PBool True,
                ''notification_email_sent'' \<mapsto> PBool True, ''notification_time'' \<mapsto> PTime 1)"
  let ?ward = "central_ward(''id'' \<mapsto> PStr ''ward001'')"
  have a2: "issues after_no_coverage ''issue2'' = Some ?d2"
    by (simp add: after_no_coverage_def run)
  have b2: "issue_location (ref_env True) (?d2(''id'' \<mapsto> PStr ''issue2'')) = Inr (12.9900, 77.5996)"
    by (simp add: issue_location_def bind_exn_def getitem_def issue_at_def)
  have c2: "?d2 ''ward_assigned'' = Some (PBool False) \<and> ?d2 ''notification_sent'' = Some (PBool False)
            \<and> (\<forall>wd\<in>set (wards after_no_coverage).
                  ward_misses (ref_env True) 12.9900 77.5996 (snd wd))"
    by (simp add: after_no_coverage_def ward_misses_def run)
  have a1: "issues after_first ''issue1'' = Some ?d1"
    by (simp add: after_first_def run)
  have b1: "issue_location (ref_env True) (?d1(''id'' \<mapsto> PStr ''issue1'')) = Inr (12.9756, 77.5996)"
    by (simp add: issue_location_def bind_exn_def getitem_def issue_at_def)
  have c1: "?d1 ''ward_assigned'' = Some (PBool True)
            \<and> find_ward_for_location (ref_env True) (wards after_first) 12.9756 77.5996
                 = Inr (Some ?ward)
            \<and> ?ward ''officer_email'' = Some (PStr ''aryaniaf2608@gmail.com'')
            \<and> payload_fields_present (?d1(''id'' \<mapsto> PStr ''issue1'')) ?ward"
    by (simp add: after_first_def payload_fields_present_def run)
  from reprocess_behaviour [OF a2 b2 prod.collapse [symmetric]] c2
       reprocess_behaviour [where ward = ?ward and officer = "PStr ''aryaniaf2608@gmail.com''",
          OF a1 b1 prod.collapse [symmetric]] c1
  show ?thesis
    by blast
qed

text \<open>
  Counterexample to C1 as stated: after the first run \<open>issue1\<close> is assigned and notified
  and one SMTP session has been opened; the second run on the same ID, with the same wards,
  opens a second one.
\<close>

theorem reprocess_counterexample:
  "issue_field after_first ''issue1'' ''ward_assigned'' = Some (PBool True)
   \<and> issue_field after_first ''issue1'' ''notification_sent'' = Some (PBool True)
   \<and> length (sessions (trace after_first)) = 1
   \<and> length (sessions (trace (snd (process_new_issue (ref_env True) ''issue1'' after_first)))) = 2"
  by (simp add: after_first_def run)

end
